theory Spec2Isabelle
  imports Main "HOL-Library.Word" "HOL-Library.AList"
begin

section \<open>Primitive types of the interop layer\<close>

text \<open>
  The header \<^verbatim>\<open>messages/interop_messages.h\<close> allows only fixed-width integers,
  \<^verbatim>\<open>double\<close>, fixed-size arrays and \<^verbatim>\<open>interop_string\<close>. Integers are words of
  their width. A \<^verbatim>\<open>double\<close> is only ever copied by the code below, never computed
  with, so it is its 64-bit pattern; equality of doubles is equality of bit patterns.
  A fixed-size array is a list whose length is the declared size.
\<close>

type_synonym int32_t = "32 word"
type_synonym int64_t = "64 word"
type_synonym uint32_t = "32 word"
type_synonym double = "64 word"

abbreviation NUL :: char where
  "NUL \<equiv> CHR 0x00"

text \<open>\<^verbatim>\<open>#define INTEROP_STRING_MAX 64\<close>\<close>

definition INTEROP_STRING_MAX :: nat where
  "INTEROP_STRING_MAX = 64"

text \<open>\<^verbatim>\<open>typedef struct { char data[INTEROP_STRING_MAX]; uint32_t len; } interop_string;\<close>\<close>

record interop_string =
  data :: "char list"
  len :: uint32_t

section \<open>The message schema\<close>

text \<open>
  The \<^verbatim>\<open>INTEROP_MESSAGE(name, id)\<close> annotations of the header, in the order of
  declaration.
\<close>

definition interop_messages :: "(string \<times> int) list" where
  "interop_messages =
     [(''Ping'', 1000), (''Pong'', 1001), (''DataRequest'', 1002), (''DataResponse'', 1003),
      (''Subscribe'', 1010), (''Unsubscribe'', 1011), (''MarketUpdate'', 1012),
      (''MarketDepth'', 1013)]"

text \<open>The C structs of the header. Field names carry the struct as a prefix.\<close>

record c_Ping =
  c_ping_count :: int32_t

record c_Pong =
  c_pong_count :: int32_t

record c_DataRequest =
  c_req_request_id :: int32_t
  c_req_symbol :: interop_string

record c_DataResponse =
  c_resp_request_id :: int32_t
  c_resp_value :: double
  c_resp_found :: int32_t

record c_Subscribe =
  c_sub_topic :: "char list"

record c_Unsubscribe =
  c_unsub_topic :: "char list"

record c_MarketUpdate =
  c_upd_symbol :: "char list"
  c_upd_price :: double
  c_upd_timestamp :: int64_t
  c_upd_volume :: int32_t

record c_MarketDepth =
  c_depth_symbol :: "char list"
  c_depth_num_levels :: int32_t
  c_depth_bid_prices :: "double list"
  c_depth_ask_prices :: "double list"
  c_depth_bid_sizes :: "int32_t list"
  c_depth_ask_sizes :: "int32_t list"

datatype c_struct =
  C_Ping c_Ping
| C_Pong c_Pong
| C_DataRequest c_DataRequest
| C_DataResponse c_DataResponse
| C_Subscribe c_Subscribe
| C_Unsubscribe c_Unsubscribe
| C_MarketUpdate c_MarketUpdate
| C_MarketDepth c_MarketDepth

text \<open>
  The C++ message classes of namespace \<^verbatim>\<open>msg\<close> (\<^verbatim>\<open>InteropMessages.hpp\<close>), with the
  field types of the type mapping table: \<^verbatim>\<open>int32_t\<close> used as a boolean is
  \<^verbatim>\<open>bool\<close>, \<^verbatim>\<open>interop_string\<close> is \<^verbatim>\<open>std::string\<close>, \<^verbatim>\<open>T[N]\<close> is
  \<^verbatim>\<open>std::array<T, N>\<close>.
\<close>

record msg_Ping =
  ping_count :: int32_t

record msg_Pong =
  pong_count :: int32_t

record msg_DataRequest =
  req_request_id :: int32_t
  req_symbol :: string

record msg_DataResponse =
  resp_request_id :: int32_t
  resp_value :: double
  resp_found :: bool

record msg_Subscribe =
  sub_topic :: "char list"

record msg_Unsubscribe =
  unsub_topic :: "char list"

record msg_MarketUpdate =
  upd_symbol :: "char list"
  upd_price :: double
  upd_timestamp :: int64_t
  upd_volume :: int32_t

record msg_MarketDepth =
  depth_symbol :: "char list"
  depth_num_levels :: int32_t
  depth_bid_prices :: "double list"
  depth_ask_prices :: "double list"
  depth_bid_sizes :: "int32_t list"
  depth_ask_sizes :: "int32_t list"

datatype interop_msg =
  Ping msg_Ping
| Pong msg_Pong
| DataRequest msg_DataRequest
| DataResponse msg_DataResponse
| Subscribe msg_Subscribe
| Unsubscribe msg_Unsubscribe
| MarketUpdate msg_MarketUpdate
| MarketDepth msg_MarketDepth

text \<open>\<^verbatim>\<open>class Subscribe : public actors::Message_N<1010>\<close>, and so on for each class.\<close>

fun message_id :: "interop_msg \<Rightarrow> int" where
  "message_id (Ping _) = 1000"
| "message_id (Pong _) = 1001"
| "message_id (DataRequest _) = 1002"
| "message_id (DataResponse _) = 1003"
| "message_id (Subscribe _) = 1010"
| "message_id (Unsubscribe _) = 1011"
| "message_id (MarketUpdate _) = 1012"
| "message_id (MarketDepth _) = 1013"

section \<open>The message codec\<close>

text \<open>
  Modelled from the spec: the generated \<^verbatim>\<open>to_c_struct\<close> and \<^verbatim>\<open>from_c_struct\<close> of
  \<^verbatim>\<open>InteropMessages.hpp\<close> are missing from the sources (only their declarations are
  shown). A fixed-size array is copied element by element over its declared size.
\<close>

definition copy_array :: "nat \<Rightarrow> 'a list \<Rightarrow> 'a list" where
  "copy_array n xs = map (\<lambda>i. xs ! i) [0..<n]"

text \<open>
  Modelled from the spec: the encoding of a bounded string. It truncates at the declared
  capacity, keeping \<open>INTEROP_STRING_MAX - 1\<close> characters and padding with NUL, and reports
  the original length in the 32-bit \<^verbatim>\<open>len\<close>.
\<close>

definition encode_string :: "string \<Rightarrow> interop_string" where
  "encode_string s =
     (let kept = take (INTEROP_STRING_MAX - 1) s
      in \<lparr>data = kept @ replicate (INTEROP_STRING_MAX - length kept) NUL,
          len = of_nat (length s)\<rparr>)"

text \<open>
  Modelled from the spec: the decoding of a bounded string. It reads the reported length,
  but never more than \<open>INTEROP_STRING_MAX - 1\<close> characters.
\<close>

definition decode_string :: "interop_string \<Rightarrow> string" where
  "decode_string c = take (min (unat (len c)) (INTEROP_STRING_MAX - 1)) (data c)"

text \<open>
  Modelled from the spec: \<^verbatim>\<open>to_c_struct\<close> of each message class, field by field.
\<close>

definition Ping_to_c_struct :: "msg_Ping \<Rightarrow> c_Ping" where
  "Ping_to_c_struct m = \<lparr>c_ping_count = ping_count m\<rparr>"

definition Pong_to_c_struct :: "msg_Pong \<Rightarrow> c_Pong" where
  "Pong_to_c_struct m = \<lparr>c_pong_count = pong_count m\<rparr>"

definition DataRequest_to_c_struct :: "msg_DataRequest \<Rightarrow> c_DataRequest" where
  "DataRequest_to_c_struct m =
     \<lparr>c_req_request_id = req_request_id m, c_req_symbol = encode_string (req_symbol m)\<rparr>"

definition DataResponse_to_c_struct :: "msg_DataResponse \<Rightarrow> c_DataResponse" where
  "DataResponse_to_c_struct m =
     \<lparr>c_resp_request_id = resp_request_id m, c_resp_value = resp_value m,
      c_resp_found = (if resp_found m then 1 else 0)\<rparr>"

definition Subscribe_to_c_struct :: "msg_Subscribe \<Rightarrow> c_Subscribe" where
  "Subscribe_to_c_struct m = \<lparr>c_sub_topic = copy_array 32 (sub_topic m)\<rparr>"

definition Unsubscribe_to_c_struct :: "msg_Unsubscribe \<Rightarrow> c_Unsubscribe" where
  "Unsubscribe_to_c_struct m = \<lparr>c_unsub_topic = copy_array 32 (unsub_topic m)\<rparr>"

definition MarketUpdate_to_c_struct :: "msg_MarketUpdate \<Rightarrow> c_MarketUpdate" where
  "MarketUpdate_to_c_struct m =
     \<lparr>c_upd_symbol = copy_array 8 (upd_symbol m), c_upd_price = upd_price m,
      c_upd_timestamp = upd_timestamp m, c_upd_volume = upd_volume m\<rparr>"

definition MarketDepth_to_c_struct :: "msg_MarketDepth \<Rightarrow> c_MarketDepth" where
  "MarketDepth_to_c_struct m =
     \<lparr>c_depth_symbol = copy_array 8 (depth_symbol m),
      c_depth_num_levels = depth_num_levels m,
      c_depth_bid_prices = copy_array 5 (depth_bid_prices m),
      c_depth_ask_prices = copy_array 5 (depth_ask_prices m),
      c_depth_bid_sizes = copy_array 5 (depth_bid_sizes m),
      c_depth_ask_sizes = copy_array 5 (depth_ask_sizes m)\<rparr>"

fun to_c_struct :: "interop_msg \<Rightarrow> c_struct" where
  "to_c_struct (Ping m) = C_Ping (Ping_to_c_struct m)"
| "to_c_struct (Pong m) = C_Pong (Pong_to_c_struct m)"
| "to_c_struct (DataRequest m) = C_DataRequest (DataRequest_to_c_struct m)"
| "to_c_struct (DataResponse m) = C_DataResponse (DataResponse_to_c_struct m)"
| "to_c_struct (Subscribe m) = C_Subscribe (Subscribe_to_c_struct m)"
| "to_c_struct (Unsubscribe m) = C_Unsubscribe (Unsubscribe_to_c_struct m)"
| "to_c_struct (MarketUpdate m) = C_MarketUpdate (MarketUpdate_to_c_struct m)"
| "to_c_struct (MarketDepth m) = C_MarketDepth (MarketDepth_to_c_struct m)"

text \<open>
  Modelled from the spec: \<^verbatim>\<open>from_c_struct\<close> of each message class, field by field.
\<close>

definition Ping_from_c_struct :: "c_Ping \<Rightarrow> msg_Ping" where
  "Ping_from_c_struct c = \<lparr>ping_count = c_ping_count c\<rparr>"

definition Pong_from_c_struct :: "c_Pong \<Rightarrow> msg_Pong" where
  "Pong_from_c_struct c = \<lparr>pong_count = c_pong_count c\<rparr>"

definition DataRequest_from_c_struct :: "c_DataRequest \<Rightarrow> msg_DataRequest" where
  "DataRequest_from_c_struct c =
     \<lparr>req_request_id = c_req_request_id c, req_symbol = decode_string (c_req_symbol c)\<rparr>"

definition DataResponse_from_c_struct :: "c_DataResponse \<Rightarrow> msg_DataResponse" where
  "DataResponse_from_c_struct c =
     \<lparr>resp_request_id = c_resp_request_id c, resp_value = c_resp_value c,
      resp_found = (c_resp_found c \<noteq> 0)\<rparr>"

definition Subscribe_from_c_struct :: "c_Subscribe \<Rightarrow> msg_Subscribe" where
  "Subscribe_from_c_struct c = \<lparr>sub_topic = copy_array 32 (c_sub_topic c)\<rparr>"

definition Unsubscribe_from_c_struct :: "c_Unsubscribe \<Rightarrow> msg_Unsubscribe" where
  "Unsubscribe_from_c_struct c = \<lparr>unsub_topic = copy_array 32 (c_unsub_topic c)\<rparr>"

definition MarketUpdate_from_c_struct :: "c_MarketUpdate \<Rightarrow> msg_MarketUpdate" where
  "MarketUpdate_from_c_struct c =
     \<lparr>upd_symbol = copy_array 8 (c_upd_symbol c), upd_price = c_upd_price c,
      upd_timestamp = c_upd_timestamp c, upd_volume = c_upd_volume c\<rparr>"

definition MarketDepth_from_c_struct :: "c_MarketDepth \<Rightarrow> msg_MarketDepth" where
  "MarketDepth_from_c_struct c =
     \<lparr>depth_symbol = copy_array 8 (c_depth_symbol c),
      depth_num_levels = c_depth_num_levels c,
      depth_bid_prices = copy_array 5 (c_depth_bid_prices c),
      depth_ask_prices = copy_array 5 (c_depth_ask_prices c),
      depth_bid_sizes = copy_array 5 (c_depth_bid_sizes c),
      depth_ask_sizes = copy_array 5 (c_depth_ask_sizes c)\<rparr>"

fun from_c_struct :: "c_struct \<Rightarrow> interop_msg" where
  "from_c_struct (C_Ping c) = Ping (Ping_from_c_struct c)"
| "from_c_struct (C_Pong c) = Pong (Pong_from_c_struct c)"
| "from_c_struct (C_DataRequest c) = DataRequest (DataRequest_from_c_struct c)"
| "from_c_struct (C_DataResponse c) = DataResponse (DataResponse_from_c_struct c)"
| "from_c_struct (C_Subscribe c) = Subscribe (Subscribe_from_c_struct c)"
| "from_c_struct (C_Unsubscribe c) = Unsubscribe (Unsubscribe_from_c_struct c)"
| "from_c_struct (C_MarketUpdate c) = MarketUpdate (MarketUpdate_from_c_struct c)"
| "from_c_struct (C_MarketDepth c) = MarketDepth (MarketDepth_from_c_struct c)"

text \<open>
  The declared bounds of the fields of a message: an array has its declared size, and a
  bounded string fits its buffer together with the terminator, so it has at most
  \<open>INTEROP_STRING_MAX - 1\<close> characters. Integers, doubles and booleans are bounded by
  their types.
\<close>

fun within_bounds :: "interop_msg \<Rightarrow> bool" where
  "within_bounds (Ping m) = True"
| "within_bounds (Pong m) = True"
| "within_bounds (DataRequest m) = (length (req_symbol m) < INTEROP_STRING_MAX)"
| "within_bounds (DataResponse m) = True"
| "within_bounds (Subscribe m) = (length (sub_topic m) = 32)"
| "within_bounds (Unsubscribe m) = (length (unsub_topic m) = 32)"
| "within_bounds (MarketUpdate m) = (length (upd_symbol m) = 8)"
| "within_bounds (MarketDepth m) =
     (length (depth_symbol m) = 8 \<and>
      length (depth_bid_prices m) = 5 \<and> length (depth_ask_prices m) = 5 \<and>
      length (depth_bid_sizes m) = 5 \<and> length (depth_ask_sizes m) = 5)"

section \<open>Writing strings into fixed buffers\<close>

text \<open>
  A write past the end of a buffer is undefined behaviour in C++; the model makes it a
  fault, so that "no write exceeds the buffer" is a property of the result.
\<close>

datatype fault = BufferOverrun

text \<open>Writing the bytes \<open>cs\<close> into \<open>buf\<close> from offset \<open>off\<close> on.\<close>

definition store_bytes :: "char list \<Rightarrow> nat \<Rightarrow> char list \<Rightarrow> fault + char list" where
  "store_bytes buf off cs =
     (if off + length cs \<le> length buf
      then Inr (take off buf @ cs @ drop (off + length cs) buf)
      else Inl BufferOverrun)"

text \<open>
  A \<^verbatim>\<open>const char*\<close> argument denotes the characters before its first NUL:
  \<^verbatim>\<open>strlen\<close> counts them, and \<^verbatim>\<open>strncpy(dest, src, n)\<close> writes exactly \<open>n\<close> bytes,
  the first \<open>n\<close> of them, padded with NUL when there are fewer.
\<close>

definition c_str :: "string \<Rightarrow> string" where
  "c_str s = takeWhile (\<lambda>c. c \<noteq> NUL) s"




text \<open>
  \<^verbatim>\<open>PriceFeed::send_update\<close>, copying the symbol into the \<^verbatim>\<open>std::array<char, 8>\<close>
  of a new \<^verbatim>\<open>msg::MarketUpdate\<close>:
  \<^verbatim>\<open>std::fill(update->symbol.begin(), update->symbol.end(), '\0');
  std::copy(symbol.begin(),
            symbol.begin() + std::min(symbol.size(), update->symbol.size() - 1),
            update->symbol.begin());\<close>
\<close>

definition send_update_symbol :: "string \<Rightarrow> fault + char list" where
  "send_update_symbol symbol =
     (let filled = replicate 8 NUL
      in store_bytes filled 0 (take (min (length symbol) (length filled - 1)) symbol))"

text \<open>
  Reading a fixed char array back as a string, as the handlers do:
  \<^verbatim>\<open>std::string(a.begin(), std::find(a.begin(), a.end(), '\0'))\<close>.
\<close>

definition array_to_string :: "char list \<Rightarrow> string" where
  "array_to_string a = takeWhile (\<lambda>c. c \<noteq> NUL) a"

section \<open>Actors and actor references\<close>

text \<open>
  An actor of the C++ runtime, as far as the code below uses one: the address the
  \<^verbatim>\<open>Actor*\<close> points to and the name \<^verbatim>\<open>get_name()\<close> returns.
\<close>

record Actor =
  actor_addr :: nat
  actor_name :: string

text \<open>
  \<^verbatim>\<open>RustActorRef(name, sender)\<close>: the members \<^verbatim>\<open>target_name_\<close> and
  \<^verbatim>\<open>sender_name_\<close>, the target and the sender by name only. (A name cannot end in
  an underscore here, so members lose theirs.)
\<close>

record RustActorRef =
  ref_target_name :: string
  ref_sender_name :: string

text \<open>
  \<^verbatim>\<open>actors::ActorRef\<close> holds a \<^verbatim>\<open>LocalActorRef\<close> or a \<^verbatim>\<open>RustActorRef\<close> (the
  remote variant is never built by the code modelled here). \<open>ActorRef_Default\<close> is a
  default-constructed reference.
\<close>

datatype ActorRef =
  ActorRef_Default
| ActorRef_Local Actor
| ActorRef_Rust RustActorRef

section \<open>Resolving a name: InteropManager::get_ref\<close>

datatype exception = runtime_error string

text \<open>
  \<^verbatim>\<open>actors::ActorRef get_ref(const std::string& name) {
      if (Actor* a = get_actor_by_name(name)) return ActorRef(a);
      if (rust_actor_exists(name.c_str())) return ActorRef(RustActorRef(name, ""));
      throw std::runtime_error("Actor not found: " + name);
  }\<close>
  The table of the C++ manager (\<open>get_actor_by_name\<close>) and the bridge function of the
  peer (\<open>rust_actor_exists\<close>) are parameters. The result comes with the list of the
  \<open>rust_actor_exists\<close> calls issued, each with its argument; the exception is the
  \<open>Inl\<close> result.
\<close>

definition get_ref ::
  "(string \<Rightarrow> Actor option) \<Rightarrow> (string \<Rightarrow> int32_t) \<Rightarrow> string
     \<Rightarrow> (exception + ActorRef) \<times> string list" where
  "get_ref get_actor_by_name rust_actor_exists name =
     (case get_actor_by_name name of
        Some a \<Rightarrow> (Inr (ActorRef_Local a), [])
      | None \<Rightarrow>
          if rust_actor_exists (c_str name) \<noteq> 0
          then (Inr (ActorRef_Rust \<lparr>ref_target_name = name, ref_sender_name = []\<rparr>), [c_str name])
          else (Inl (runtime_error (''Actor not found: '' @ name)), [c_str name]))"

section \<open>Sending across the boundary: RustActorRef::send\<close>

text \<open>
  A \<^verbatim>\<open>const Message*\<close>: an object of one of the eight interop classes, or of any
  other message class, of which only the id matters.
\<close>

datatype Message =
  Interop interop_msg
| Other int

fun get_message_id :: "Message \<Rightarrow> int" where
  "get_message_id (Interop m) = message_id m"
| "get_message_id (Other i) = i"

text \<open>
  What \<^verbatim>\<open>send\<close> does to the world: calls of the bridge function
  \<^verbatim>\<open>rust_actor_send(actor_name, sender_name, msg_type, msg_data)\<close>, where the sender
  name may be the null pointer, and \<^verbatim>\<open>delete m\<close>.
\<close>

datatype effect =
  Rust_actor_send string "string option" int32_t c_struct
| Delete Message

text \<open>
  \<^verbatim>\<open>static_cast<const msg::Ping*>(m)\<close> and its siblings. The cast of an object of
  another class is undefined behaviour: \<open>None\<close>.
\<close>

fun cast_Ping :: "Message \<Rightarrow> msg_Ping option" where
  "cast_Ping (Interop (Ping p)) = Some p"
| "cast_Ping _ = None"

fun cast_Pong :: "Message \<Rightarrow> msg_Pong option" where
  "cast_Pong (Interop (Pong p)) = Some p"
| "cast_Pong _ = None"

fun cast_DataRequest :: "Message \<Rightarrow> msg_DataRequest option" where
  "cast_DataRequest (Interop (DataRequest p)) = Some p"
| "cast_DataRequest _ = None"

fun cast_DataResponse :: "Message \<Rightarrow> msg_DataResponse option" where
  "cast_DataResponse (Interop (DataResponse p)) = Some p"
| "cast_DataResponse _ = None"

fun cast_Subscribe :: "Message \<Rightarrow> msg_Subscribe option" where
  "cast_Subscribe (Interop (Subscribe p)) = Some p"
| "cast_Subscribe _ = None"

fun cast_Unsubscribe :: "Message \<Rightarrow> msg_Unsubscribe option" where
  "cast_Unsubscribe (Interop (Unsubscribe p)) = Some p"
| "cast_Unsubscribe _ = None"

fun cast_MarketUpdate :: "Message \<Rightarrow> msg_MarketUpdate option" where
  "cast_MarketUpdate (Interop (MarketUpdate p)) = Some p"
| "cast_MarketUpdate _ = None"

fun cast_MarketDepth :: "Message \<Rightarrow> msg_MarketDepth option" where
  "cast_MarketDepth (Interop (MarketDepth p)) = Some p"
| "cast_MarketDepth _ = None"

text \<open>
  \<^verbatim>\<open>RustActorRef::send(const Message* m, Actor* sender)\<close>. Each case of the switch
  converts the cast message with \<^verbatim>\<open>to_c_struct\<close> and calls the bridge with the
  address of the struct, ignoring the status the bridge returns; the default case does
  nothing. After the switch comes \<^verbatim>\<open>delete m\<close>.
\<close>

definition RustActorRef_send :: "RustActorRef \<Rightarrow> Message \<Rightarrow> effect list option" where
  "RustActorRef_send r m =
     (let sender_name_cstr =
            (if ref_sender_name r = [] then None else Some (c_str (ref_sender_name r)));
          target = c_str (ref_target_name r);
          id = get_message_id m;
          switch =
            (if id = 1000 then
               (case cast_Ping m of
                  None \<Rightarrow> None
                | Some p \<Rightarrow>
                    Some [Rust_actor_send target sender_name_cstr 1000
                            (C_Ping (Ping_to_c_struct p))])
             else if id = 1001 then
               (case cast_Pong m of
                  None \<Rightarrow> None
                | Some p \<Rightarrow>
                    Some [Rust_actor_send target sender_name_cstr 1001
                            (C_Pong (Pong_to_c_struct p))])
             else if id = 1002 then
               (case cast_DataRequest m of
                  None \<Rightarrow> None
                | Some p \<Rightarrow>
                    Some [Rust_actor_send target sender_name_cstr 1002
                            (C_DataRequest (DataRequest_to_c_struct p))])
             else if id = 1003 then
               (case cast_DataResponse m of
                  None \<Rightarrow> None
                | Some p \<Rightarrow>
                    Some [Rust_actor_send target sender_name_cstr 1003
                            (C_DataResponse (DataResponse_to_c_struct p))])
             else if id = 1010 then
               (case cast_Subscribe m of
                  None \<Rightarrow> None
                | Some p \<Rightarrow>
                    Some [Rust_actor_send target sender_name_cstr 1010
                            (C_Subscribe (Subscribe_to_c_struct p))])
             else if id = 1011 then
               (case cast_Unsubscribe m of
                  None \<Rightarrow> None
                | Some p \<Rightarrow>
                    Some [Rust_actor_send target sender_name_cstr 1011
                            (C_Unsubscribe (Unsubscribe_to_c_struct p))])
             else if id = 1012 then
               (case cast_MarketUpdate m of
                  None \<Rightarrow> None
                | Some p \<Rightarrow>
                    Some [Rust_actor_send target sender_name_cstr 1012
                            (C_MarketUpdate (MarketUpdate_to_c_struct p))])
             else if id = 1013 then
               (case cast_MarketDepth m of
                  None \<Rightarrow> None
                | Some p \<Rightarrow>
                    Some [Rust_actor_send target sender_name_cstr 1013
                            (C_MarketDepth (MarketDepth_to_c_struct p))])
             else Some [])
      in case switch of
           None \<Rightarrow> None
         | Some calls \<Rightarrow> Some (calls @ [Delete m]))"

text \<open>The bridge calls and the deletions among the effects of a send.\<close>

fun bridge_calls :: "effect list \<Rightarrow> effect list" where
  "bridge_calls [] = []"
| "bridge_calls (Rust_actor_send t s i c # es) = Rust_actor_send t s i c # bridge_calls es"
| "bridge_calls (Delete m # es) = bridge_calls es"

fun deleted :: "effect list \<Rightarrow> Message list" where
  "deleted [] = []"
| "deleted (Rust_actor_send t s i c # es) = deleted es"
| "deleted (Delete m # es) = m # deleted es"

text \<open>
  The precondition of the casts: an object whose id is one of the schema's is of the
  class the schema gives that id.
\<close>

fun class_matches_id :: "Message \<Rightarrow> bool" where
  "class_matches_id (Interop m) = True"
| "class_matches_id (Other i) = (i \<notin> set (map snd interop_messages))"

section \<open>The price feed publisher\<close>

text \<open>\<^verbatim>\<open>struct SubscriberInfo { actors::ActorRef ref; std::vector<std::string> topics; };\<close>\<close>

record SubscriberInfo =
  ref :: ActorRef
  topics :: "string list"

text \<open>
  The state of a \<^verbatim>\<open>PriceFeed\<close>: its two tables, each an association list read with
  \<open>map_of\<close> and written with \<open>AList.update\<close> and \<open>AList.delete\<close> (the order of the
  list is not the iteration order of the hash table), and the messages handed to
  \<^verbatim>\<open>ActorRef::send\<close> so far, each with the reference it was sent through.
\<close>

record PriceFeed =
  subscribers :: "(string \<times> SubscriberInfo) list"
  prices :: "(string \<times> double) list"
  sent :: "(ActorRef \<times> msg_MarketUpdate) list"

text \<open>
  The constructor: no subscribers, and the prices 150.0, 2800.0, 380.0 and 3400.0 as
  bit patterns.
\<close>

definition PriceFeed_new :: PriceFeed where
  "PriceFeed_new =
     \<lparr>subscribers = [],
      prices = [(''AAPL'', 0x4062C00000000000), (''GOOG'', 0x40A5E00000000000),
                 (''MSFT'', 0x4077C00000000000), (''AMZN'', 0x40AA900000000000)],
      sent = []\<rparr>"

text \<open>
  \<^verbatim>\<open>send_update\<close>: \<open>now\<close> is what \<^verbatim>\<open>std::time(nullptr)\<close> returns and \<open>rnd\<close> what
  \<^verbatim>\<open>rand()\<close> returns.
\<close>

definition send_update ::
  "int64_t \<Rightarrow> nat \<Rightarrow> SubscriberInfo \<Rightarrow> string \<Rightarrow> double \<Rightarrow> PriceFeed \<Rightarrow> fault + PriceFeed" where
  "send_update now rnd subscriber symbol price pf =
     (case send_update_symbol symbol of
        Inl f \<Rightarrow> Inl f
      | Inr arr \<Rightarrow>
          Inr (pf\<lparr>sent := sent pf @
                 [(ref subscriber,
                   \<lparr>upd_symbol = arr, upd_price = price, upd_timestamp = now * 1000,
                    upd_volume = of_nat (rnd mod 10000)\<rparr>)]\<rparr>))"

text \<open>
  \<^verbatim>\<open>subscribers_[sender_name]\<close>: the entry, inserted default-constructed when absent.
\<close>

definition subscript ::
  "(string \<times> SubscriberInfo) list \<Rightarrow> string
     \<Rightarrow> SubscriberInfo \<times> (string \<times> SubscriberInfo) list" where
  "subscript subs k =
     (case map_of subs k of
        Some info \<Rightarrow> (info, subs)
      | None \<Rightarrow> (\<lparr>ref = ActorRef_Default, topics = []\<rparr>,
                 AList.update k \<lparr>ref = ActorRef_Default, topics = []\<rparr> subs))"

text \<open>
  \<^verbatim>\<open>PriceFeed::on_subscribe\<close>; \<open>reply_to\<close> is what \<^verbatim>\<open>get_reply_to()\<close> returns,
  \<open>None\<close> for the null pointer.
\<close>

definition on_subscribe ::
  "int64_t \<Rightarrow> nat \<Rightarrow> Actor option \<Rightarrow> msg_Subscribe \<Rightarrow> PriceFeed \<Rightarrow> fault + PriceFeed" where
  "on_subscribe now rnd reply_to msg pf =
     (let topic = array_to_string (sub_topic msg)
      in case reply_to of
           None \<Rightarrow> Inr pf
         | Some sender \<Rightarrow>
             let sender_name = actor_name sender;
                 subs1 = (case map_of (subscribers pf) sender_name of
                            None \<Rightarrow>
                              AList.update sender_name
                                \<lparr>ref = ActorRef_Local sender, topics = []\<rparr> (subscribers pf)
                          | Some _ \<Rightarrow> subscribers pf);
                 (subscriber, subs2) = subscript subs1 sender_name;
                 subscriber' = (if topic \<notin> set (topics subscriber)
                                then subscriber\<lparr>topics := topics subscriber @ [topic]\<rparr>
                                else subscriber);
                 pf' = pf\<lparr>subscribers := AList.update sender_name subscriber' subs2\<rparr>
             in case map_of (prices pf') topic of
                  None \<Rightarrow> Inr pf'
                | Some price \<Rightarrow> send_update now rnd subscriber' topic price pf')"

text \<open>\<^verbatim>\<open>PriceFeed::on_unsubscribe\<close>.\<close>

definition on_unsubscribe :: "Actor option \<Rightarrow> msg_Unsubscribe \<Rightarrow> PriceFeed \<Rightarrow> PriceFeed" where
  "on_unsubscribe reply_to msg pf =
     (let topic = array_to_string (unsub_topic msg)
      in case reply_to of
           None \<Rightarrow> pf
         | Some sender \<Rightarrow>
             let sender_name = actor_name sender
             in case map_of (subscribers pf) sender_name of
                  None \<Rightarrow> pf
                | Some info \<Rightarrow>
                    let topics' = removeAll topic (topics info)
                    in if topics' = []
                       then pf\<lparr>subscribers := AList.delete sender_name (subscribers pf)\<rparr>
                       else pf\<lparr>subscribers :=
                                 AList.update sender_name (info\<lparr>topics := topics'\<rparr>)
                                   (subscribers pf)\<rparr>)"

text \<open>The invariant of the subscriber table: every entry has at least one topic.\<close>

definition topics_nonempty :: "PriceFeed \<Rightarrow> bool" where
  "topics_nonempty pf = list_all (\<lambda>(sub_name, sub_info). topics sub_info \<noteq> []) (subscribers pf)"

text \<open>
  The entry of a sender after it subscribed to \<open>topic\<close>, given its entry \<open>old\<close>
  before: a new entry holds a reference to the sender and the topic alone; an existing
  entry keeps its reference and gains the topic unless it has it.
\<close>

definition entry_after_subscribe ::
  "Actor \<Rightarrow> string \<Rightarrow> SubscriberInfo option \<Rightarrow> SubscriberInfo" where
  "entry_after_subscribe sender topic old =
     (case old of
        None \<Rightarrow> \<lparr>ref = ActorRef_Local sender, topics = [topic]\<rparr>
      | Some info \<Rightarrow> if topic \<in> set (topics info) then info
                     else info\<lparr>topics := topics info @ [topic]\<rparr>)"

section \<open>Example values\<close>



text \<open>Two actors of the C++ runtime, and a price feed with one subscriber.\<close>

definition cpp_ping :: Actor where
  "cpp_ping = \<lparr>actor_addr = 1, actor_name = ''cpp_ping''\<rparr>"

definition rust_price_monitor :: Actor where
  "rust_price_monitor = \<lparr>actor_addr = 2, actor_name = ''rust_price_monitor''\<rparr>"

definition topic_array :: "string \<Rightarrow> char list" where
  "topic_array s = take 32 (s @ replicate 32 NUL)"

definition feed_with_subscriber :: PriceFeed where
  "feed_with_subscriber =
     PriceFeed_new\<lparr>subscribers :=
       [(''rust_price_monitor'',
         \<lparr>ref = ActorRef_Local rust_price_monitor, topics = [''AAPL'']\<rparr>)]\<rparr>"

section \<open>Properties of the schema and of the codec\<close>

lemma copy_array_id: "length xs = n \<Longrightarrow> copy_array n xs = xs"
  by (auto simp: copy_array_def intro: nth_equalityI)

lemma copy_array_twice: "length xs = n \<Longrightarrow> copy_array n (copy_array n xs) = xs"
  by (simp add: copy_array_id)

lemma decode_encode_string:
  assumes "length s < INTEROP_STRING_MAX"
  shows "decode_string (encode_string s) = s"
proof -
  from assms have small: "length s < 64"
    by (simp add: INTEROP_STRING_MAX_def)
  then have "unat (word_of_nat (length s) :: uint32_t) = length s"
    by (simp add: unat_of_nat)
  with small show ?thesis
    by (simp add: decode_string_def encode_string_def Let_def INTEROP_STRING_MAX_def)
qed

text \<open>
  C8. Every message type declared in the schema has an id of at least 1000, no declared id
  is below 1000, and the declared ids are pairwise distinct.
\<close>

theorem schema_ids_at_least_1000_and_distinct:
  "list_all (\<lambda>(name, id). 1000 \<le> id) interop_messages
   \<and> \<not> list_ex (\<lambda>(name, id). id < 1000) interop_messages
   \<and> distinct (map snd interop_messages)
   \<and> map snd interop_messages = [1000, 1001, 1002, 1003, 1010, 1011, 1012, 1013]"
  by (simp add: interop_messages_def)

text \<open>
  C1. For each of the eight message types, a value whose fields are within their declared
  bounds is returned unchanged by decoding its encoding.
\<close>

theorem decode_encode_roundtrip:
  "within_bounds m \<Longrightarrow> from_c_struct (to_c_struct m) = m"
proof (cases m)
  case (Ping p)
  then show ?thesis
    by (simp add: Ping_to_c_struct_def Ping_from_c_struct_def)
next
  case (Pong p)
  then show ?thesis
    by (simp add: Pong_to_c_struct_def Pong_from_c_struct_def)
next
  case (DataRequest r)
  assume "within_bounds m"
  with DataRequest have "decode_string (encode_string (req_symbol r)) = req_symbol r"
    by (simp add: decode_encode_string)
  with DataRequest show ?thesis
    by (simp add: DataRequest_to_c_struct_def DataRequest_from_c_struct_def)
next
  case (DataResponse r)
  then show ?thesis
    by (simp add: DataResponse_to_c_struct_def DataResponse_from_c_struct_def)
next
  case (Subscribe s)
  assume "within_bounds m"
  with Subscribe show ?thesis
    by (simp add: Subscribe_to_c_struct_def Subscribe_from_c_struct_def copy_array_twice)
next
  case (Unsubscribe s)
  assume "within_bounds m"
  with Unsubscribe show ?thesis
    by (simp add: Unsubscribe_to_c_struct_def Unsubscribe_from_c_struct_def copy_array_twice)
next
  case (MarketUpdate u)
  assume "within_bounds m"
  with MarketUpdate show ?thesis
    by (simp add: MarketUpdate_to_c_struct_def MarketUpdate_from_c_struct_def copy_array_twice)
next
  case (MarketDepth d)
  assume "within_bounds m"
  with MarketDepth show ?thesis
    by (simp add: MarketDepth_to_c_struct_def MarketDepth_from_c_struct_def copy_array_twice)
qed

theorem decode_encode_roundtrip_witness:
  "within_bounds (DataRequest \<lparr>req_request_id = 123, req_symbol = ''AAPL''\<rparr>)
   \<and> from_c_struct (to_c_struct (DataRequest \<lparr>req_request_id = 123, req_symbol = ''AAPL''\<rparr>))
       = DataRequest \<lparr>req_request_id = 123, req_symbol = ''AAPL''\<rparr>"
  using decode_encode_roundtrip [of "DataRequest \<lparr>req_request_id = 123, req_symbol = ''AAPL''\<rparr>"]
  by (simp add: INTEROP_STRING_MAX_def)

section \<open>Truncation of strings that do not fit\<close>




lemma send_update_symbol_result:
  "send_update_symbol s = Inr (take 7 s @ replicate (8 - min (length s) 7) NUL)"
  by (simp add: send_update_symbol_def store_bytes_def Let_def min_def)





section \<open>Resolution of names\<close>

text \<open>
  C3. \<^verbatim>\<open>get_ref\<close> consults the local table first: a name found there resolves to the
  local actor without any \<^verbatim>\<open>rust_actor_exists\<close> call, whatever the peer has. A name
  absent locally costs exactly one \<^verbatim>\<open>rust_actor_exists\<close> call, and resolves to a
  \<^verbatim>\<open>RustActorRef\<close> when the peer has it. When neither has it, the caller gets the
  exception "Actor not found".
\<close>

theorem get_ref_local_first:
  "(\<forall>a. local n = Some a \<longrightarrow> get_ref local peer n = (Inr (ActorRef_Local a), []))
   \<and> (local n = None \<longrightarrow> snd (get_ref local peer n) = [c_str n])
   \<and> (local n = None \<and> peer (c_str n) \<noteq> 0 \<longrightarrow>
        fst (get_ref local peer n)
          = Inr (ActorRef_Rust \<lparr>ref_target_name = n, ref_sender_name = []\<rparr>))
   \<and> (local n = None \<and> peer (c_str n) = 0 \<longrightarrow>
        fst (get_ref local peer n) = Inl (runtime_error (''Actor not found: '' @ n)))"
  by (simp add: get_ref_def)

theorem get_ref_local_first_witness:
  "[''cpp_ping'' \<mapsto> cpp_ping] ''cpp_ping'' = Some cpp_ping
   \<and> get_ref [''cpp_ping'' \<mapsto> cpp_ping] (\<lambda>name. if name \<in> {''cpp_ping'', ''rust_pong''} then 1 else 0)
        ''cpp_ping'' = (Inr (ActorRef_Local cpp_ping), [])
   \<and> [''cpp_ping'' \<mapsto> cpp_ping] ''rust_pong'' = None
   \<and> get_ref [''cpp_ping'' \<mapsto> cpp_ping] (\<lambda>name. if name \<in> {''cpp_ping'', ''rust_pong''} then 1 else 0)
        ''rust_pong''
      = (Inr (ActorRef_Rust \<lparr>ref_target_name = ''rust_pong'', ref_sender_name = []\<rparr>), [''rust_pong''])
   \<and> [''cpp_ping'' \<mapsto> cpp_ping] ''nobody'' = None
   \<and> get_ref [''cpp_ping'' \<mapsto> cpp_ping] (\<lambda>name. if name \<in> {''cpp_ping'', ''rust_pong''} then 1 else 0)
        ''nobody''
      = (Inl (runtime_error ''Actor not found: nobody''), [''nobody''])"
  using get_ref_local_first [of "[''cpp_ping'' \<mapsto> cpp_ping]" "''cpp_ping''"
          "\<lambda>name. if name \<in> {''cpp_ping'', ''rust_pong''} then 1 else 0"]
        get_ref_local_first [of "[''cpp_ping'' \<mapsto> cpp_ping]" "''rust_pong''"
          "\<lambda>name. if name \<in> {''cpp_ping'', ''rust_pong''} then 1 else 0"]
        get_ref_local_first [of "[''cpp_ping'' \<mapsto> cpp_ping]" "''nobody''"
          "\<lambda>name. if name \<in> {''cpp_ping'', ''rust_pong''} then 1 else 0"]
  by (simp add: c_str_def prod_eq_iff)

section \<open>Sending through a cross-runtime reference\<close>

lemma registered_ids: "map snd interop_messages = [1000, 1001, 1002, 1003, 1010, 1011, 1012, 1013]"
  by (simp add: interop_messages_def)

lemma send_interop:
  "\<exists>calls. RustActorRef_send r (Interop x) = Some (calls @ [Delete (Interop x)])
          \<and> deleted calls = []"
  by (cases x) (simp_all add: RustActorRef_send_def Let_def)

lemma send_other:
  "i \<notin> set (map snd interop_messages)
   \<Longrightarrow> RustActorRef_send r (Other i) = Some [Delete (Other i)]"
  by (simp add: registered_ids RustActorRef_send_def Let_def)

lemma deleted_append: "deleted (xs @ ys) = deleted xs @ deleted ys"
  by (induction xs rule: deleted.induct) simp_all

text \<open>
  C5. A message whose id is none of the registered ids is dropped by
  \<^verbatim>\<open>RustActorRef::send\<close>: the send returns, and no \<^verbatim>\<open>rust_actor_send\<close> call is among
  its effects.
\<close>

theorem unknown_id_is_dropped:
  assumes "get_message_id m \<notin> set (map snd interop_messages)"
  shows "\<exists>es. RustActorRef_send r m = Some es \<and> bridge_calls es = []"
proof -
  from assms have "RustActorRef_send r m = Some [Delete m]"
    by (simp add: registered_ids RustActorRef_send_def Let_def)
  then show ?thesis by simp
qed

theorem unknown_id_is_dropped_witness:
  "get_message_id (Other 7) \<notin> set (map snd interop_messages)
   \<and> (\<exists>es. RustActorRef_send \<lparr>ref_target_name = ''rust_pong'', ref_sender_name = ''cpp_ping''\<rparr>
               (Other 7) = Some es
            \<and> bridge_calls es = [])"
  using unknown_id_is_dropped
          [of "Other 7" "\<lparr>ref_target_name = ''rust_pong'', ref_sender_name = ''cpp_ping''\<rparr>"]
  by (simp add: registered_ids)

text \<open>
  C6. For every message whose class is the one its id names, in each of the eight
  branches and in the default branch, \<^verbatim>\<open>RustActorRef::send\<close> returns having deleted
  the message exactly once, as its last effect.
\<close>

theorem send_deletes_message_once:
  assumes "class_matches_id m"
  shows "\<exists>es. RustActorRef_send r m = Some es \<and> deleted es = [m] \<and> last es = Delete m"
proof (cases m)
  case (Interop x)
  from send_interop [of r x] obtain calls where
    "RustActorRef_send r (Interop x) = Some (calls @ [Delete (Interop x)])"
    and "deleted calls = []"
    by blast
  with Interop show ?thesis
    by (simp add: deleted_append)
next
  case (Other i)
  with assms have "RustActorRef_send r m = Some [Delete m]"
    by (simp add: send_other)
  then show ?thesis by simp
qed

theorem send_deletes_message_once_witness:
  "class_matches_id (Interop (Ping \<lparr>ping_count = 1\<rparr>))
   \<and> RustActorRef_send \<lparr>ref_target_name = ''rust_pong'', ref_sender_name = ''cpp_ping''\<rparr>
        (Interop (Ping \<lparr>ping_count = 1\<rparr>))
      = Some [Rust_actor_send ''rust_pong'' (Some ''cpp_ping'') 1000 (C_Ping \<lparr>c_ping_count = 1\<rparr>),
              Delete (Interop (Ping \<lparr>ping_count = 1\<rparr>))]
   \<and> (\<exists>es. RustActorRef_send \<lparr>ref_target_name = ''rust_pong'', ref_sender_name = ''cpp_ping''\<rparr>
               (Interop (Ping \<lparr>ping_count = 1\<rparr>)) = Some es
            \<and> deleted es = [Interop (Ping \<lparr>ping_count = 1\<rparr>)]
            \<and> last es = Delete (Interop (Ping \<lparr>ping_count = 1\<rparr>)))"
  using send_deletes_message_once
          [of "Interop (Ping \<lparr>ping_count = 1\<rparr>)"
              "\<lparr>ref_target_name = ''rust_pong'', ref_sender_name = ''cpp_ping''\<rparr>"]
  by (simp add: RustActorRef_send_def Let_def Ping_to_c_struct_def c_str_def)

section \<open>The subscriber table of the price feed\<close>

lemma send_update_returns:
  "send_update now rnd subscriber symbol price pf =
     Inr (pf\<lparr>sent := sent pf @
            [(ref subscriber,
              \<lparr>upd_symbol = take 7 symbol @ replicate (8 - min (length symbol) 7) NUL,
               upd_price = price, upd_timestamp = now * 1000,
               upd_volume = of_nat (rnd mod 10000)\<rparr>)]\<rparr>)"
  by (simp add: send_update_def send_update_symbol_result)

lemma subscript_present:
  "map_of subs k = Some info \<Longrightarrow> subscript subs k = (info, subs)"
  by (simp add: subscript_def)

lemma on_subscribe_no_sender: "on_subscribe now rnd None msg pf = Inr pf"
  by (simp add: on_subscribe_def)

lemma on_subscribe_table:
  "\<exists>pf'. on_subscribe now rnd (Some sender) msg pf = Inr pf'
     \<and> subscribers pf' =
         AList.update (actor_name sender)
           (entry_after_subscribe sender (array_to_string (sub_topic msg))
              (map_of (subscribers pf) (actor_name sender)))
           (subscribers pf)
     \<and> prices pf' = prices pf"
proof (cases "map_of (subscribers pf) (actor_name sender)")
  case None
  let ?fresh = "\<lparr>ref = ActorRef_Local sender, topics = []\<rparr>"
  have "subscript (AList.update (actor_name sender) ?fresh (subscribers pf)) (actor_name sender)
        = (?fresh, AList.update (actor_name sender) ?fresh (subscribers pf))"
    by (rule subscript_present) (simp add: update_conv')
  with None show ?thesis
    by (auto simp: on_subscribe_def Let_def entry_after_subscribe_def send_update_returns
             split: option.splits)
next
  case (Some info)
  then have "subscript (subscribers pf) (actor_name sender) = (info, subscribers pf)"
    by (rule subscript_present)
  with Some show ?thesis
    by (auto simp: on_subscribe_def Let_def entry_after_subscribe_def send_update_returns
             split: option.splits)
qed

lemma list_all_update:
  "list_all P al \<Longrightarrow> P (k, v) \<Longrightarrow> list_all P (AList.update k v al)"
  by (induction al) auto

lemma list_all_delete: "list_all P al \<Longrightarrow> list_all P (AList.delete k al)"
  by (simp add: AList.delete_eq list_all_iff)

lemma entry_after_subscribe_nonempty: "topics (entry_after_subscribe sender topic old) \<noteq> []"
  by (auto simp: entry_after_subscribe_def split: option.splits)

lemma entry_after_subscribe_idem:
  "entry_after_subscribe sender topic (Some (entry_after_subscribe sender topic old))
   = entry_after_subscribe sender topic old"
  by (simp add: entry_after_subscribe_def split: option.splits)

lemma on_subscribe_keeps_invariant:
  assumes "topics_nonempty pf"
  shows "\<exists>pf'. on_subscribe now rnd reply_to msg pf = Inr pf' \<and> topics_nonempty pf'"
proof (cases reply_to)
  case None
  with assms show ?thesis by (simp add: on_subscribe_no_sender)
next
  case (Some sender)
  from on_subscribe_table [of now rnd sender msg pf] obtain pf' where
    r: "on_subscribe now rnd (Some sender) msg pf = Inr pf'" and
    t: "subscribers pf' =
         AList.update (actor_name sender)
           (entry_after_subscribe sender (array_to_string (sub_topic msg))
              (map_of (subscribers pf) (actor_name sender)))
           (subscribers pf)"
    by blast
  from assms have "topics_nonempty pf'"
    unfolding topics_nonempty_def t
    by (rule list_all_update) (simp add: entry_after_subscribe_nonempty)
  with r Some show ?thesis by simp
qed

lemma on_unsubscribe_keeps_invariant:
  assumes "topics_nonempty pf"
  shows "topics_nonempty (on_unsubscribe reply_to msg pf)"
  using assms
  by (auto simp: on_unsubscribe_def topics_nonempty_def Let_def list_all_delete
           intro!: list_all_update split: option.splits)

lemma on_unsubscribe_erases:
  assumes "map_of (subscribers pf) (actor_name sender) = Some info"
    and "removeAll (array_to_string (unsub_topic msg)) (topics info) = []"
  shows "subscribers (on_unsubscribe (Some sender) msg pf)
         = AList.delete (actor_name sender) (subscribers pf)"
  using assms by (simp add: on_unsubscribe_def Let_def)

text \<open>
  C9. A new \<^verbatim>\<open>PriceFeed\<close> has no entry without topics, and both handlers keep it so:
  \<^verbatim>\<open>on_subscribe\<close> returns a state in which every entry has a topic, and so does
  \<^verbatim>\<open>on_unsubscribe\<close>, which erases the entry of the sender when removing the topic
  leaves it none.
\<close>

theorem subscriber_topics_never_empty:
  "topics_nonempty PriceFeed_new
   \<and> (topics_nonempty pf \<longrightarrow>
        (\<exists>pf'. on_subscribe now rnd reply_to sub pf = Inr pf' \<and> topics_nonempty pf')
        \<and> topics_nonempty (on_unsubscribe reply_to unsub pf))
   \<and> (\<forall>sender info.
         reply_to = Some sender
         \<and> map_of (subscribers pf) (actor_name sender) = Some info
         \<and> removeAll (array_to_string (unsub_topic unsub)) (topics info) = []
         \<longrightarrow> map_of (subscribers (on_unsubscribe reply_to unsub pf)) (actor_name sender) = None)"
proof (intro conjI impI allI)
  show "topics_nonempty PriceFeed_new"
    by (simp add: topics_nonempty_def PriceFeed_new_def)
next
  assume "topics_nonempty pf"
  then show "\<exists>pf'. on_subscribe now rnd reply_to sub pf = Inr pf' \<and> topics_nonempty pf'"
    by (rule on_subscribe_keeps_invariant)
next
  assume "topics_nonempty pf"
  then show "topics_nonempty (on_unsubscribe reply_to unsub pf)"
    by (rule on_unsubscribe_keeps_invariant)
next
  fix sender info
  assume "reply_to = Some sender
         \<and> map_of (subscribers pf) (actor_name sender) = Some info
         \<and> removeAll (array_to_string (unsub_topic unsub)) (topics info) = []"
  then show "map_of (subscribers (on_unsubscribe reply_to unsub pf)) (actor_name sender) = None"
    by (simp add: on_unsubscribe_erases delete_conv')
qed

theorem subscriber_topics_never_empty_witness:
  "topics_nonempty feed_with_subscriber
   \<and> (\<exists>pf'. on_subscribe 1700000000 12345 (Some rust_price_monitor)
               \<lparr>sub_topic = topic_array ''GOOG''\<rparr> feed_with_subscriber = Inr pf'
            \<and> topics_nonempty pf')
   \<and> map_of (subscribers feed_with_subscriber) (actor_name rust_price_monitor)
       = Some \<lparr>ref = ActorRef_Local rust_price_monitor, topics = [''AAPL'']\<rparr>
   \<and> removeAll (array_to_string (unsub_topic \<lparr>unsub_topic = topic_array ''AAPL''\<rparr>)) [''AAPL''] = []
   \<and> topics_nonempty (on_unsubscribe (Some rust_price_monitor)
                         \<lparr>unsub_topic = topic_array ''AAPL''\<rparr> feed_with_subscriber)
   \<and> map_of (subscribers (on_unsubscribe (Some rust_price_monitor)
                             \<lparr>unsub_topic = topic_array ''AAPL''\<rparr> feed_with_subscriber))
        (actor_name rust_price_monitor) = None"
proof -
  have inv: "topics_nonempty feed_with_subscriber"
    by (simp add: topics_nonempty_def feed_with_subscriber_def)
  have entry: "map_of (subscribers feed_with_subscriber) (actor_name rust_price_monitor)
       = Some \<lparr>ref = ActorRef_Local rust_price_monitor, topics = [''AAPL'']\<rparr>"
    by (simp add: feed_with_subscriber_def rust_price_monitor_def)
  have last_topic:
    "removeAll (array_to_string (unsub_topic \<lparr>unsub_topic = topic_array ''AAPL''\<rparr>)) [''AAPL''] = []"
    by (simp add: topic_array_def array_to_string_def)
  from subscriber_topics_never_empty
         [of feed_with_subscriber 1700000000 12345 "Some rust_price_monitor"
             "\<lparr>sub_topic = topic_array ''GOOG''\<rparr>" "\<lparr>unsub_topic = topic_array ''AAPL''\<rparr>"]
       inv entry last_topic
  show ?thesis by simp
qed

text \<open>
  C10. Delivering the same \<^verbatim>\<open>Subscribe\<close> from the same sender twice leaves the
  subscriber table as delivering it once does, whatever the clock and \<^verbatim>\<open>rand()\<close>
  return at each delivery. After the first delivery the table is the old one with the
  entry of the sender created if it was absent, and the topic appended to it if it was
  not among its topics; without a sender the table is unchanged.
\<close>

theorem on_subscribe_idempotent:
  "\<exists>pf1 pf2.
     on_subscribe now rnd reply_to msg pf = Inr pf1
     \<and> on_subscribe now' rnd' reply_to msg pf1 = Inr pf2
     \<and> subscribers pf2 = subscribers pf1
     \<and> (case reply_to of
          None \<Rightarrow> subscribers pf1 = subscribers pf
        | Some sender \<Rightarrow>
            subscribers pf1 =
              AList.update (actor_name sender)
                (entry_after_subscribe sender (array_to_string (sub_topic msg))
                   (map_of (subscribers pf) (actor_name sender)))
                (subscribers pf))"
proof (cases reply_to)
  case None
  then show ?thesis by (simp add: on_subscribe_no_sender)
next
  case (Some sender)
  let ?k = "actor_name sender" and ?t = "array_to_string (sub_topic msg)"
  let ?e = "entry_after_subscribe sender ?t (map_of (subscribers pf) ?k)"
  from on_subscribe_table [of now rnd sender msg pf] obtain pf1 where
    r1: "on_subscribe now rnd (Some sender) msg pf = Inr pf1" and
    t1: "subscribers pf1 = AList.update ?k ?e (subscribers pf)"
    by blast
  from on_subscribe_table [of now' rnd' sender msg pf1] obtain pf2 where
    r2: "on_subscribe now' rnd' (Some sender) msg pf1 = Inr pf2" and
    t2: "subscribers pf2 =
           AList.update ?k (entry_after_subscribe sender ?t (map_of (subscribers pf1) ?k))
             (subscribers pf1)"
    by blast
  have "map_of (subscribers pf1) ?k = Some ?e"
    by (simp add: t1 update_conv')
  then have "subscribers pf2 = AList.update ?k ?e (subscribers pf1)"
    by (simp add: t2 entry_after_subscribe_idem)
  then have "subscribers pf2 = subscribers pf1"
    by (simp add: t1)
  with r1 r2 t1 Some show ?thesis by simp
qed

theorem on_subscribe_idempotent_witness:
  "\<exists>pf1 pf2.
     on_subscribe 1700000000 12345 (Some rust_price_monitor)
       \<lparr>sub_topic = topic_array ''AAPL''\<rparr> PriceFeed_new = Inr pf1
     \<and> on_subscribe 1700000001 54321 (Some rust_price_monitor)
         \<lparr>sub_topic = topic_array ''AAPL''\<rparr> pf1 = Inr pf2
     \<and> subscribers pf2 = subscribers pf1
     \<and> subscribers pf1 =
         [(''rust_price_monitor'',
           \<lparr>ref = ActorRef_Local rust_price_monitor, topics = [''AAPL'']\<rparr>)]"
proof -
  have "AList.update (actor_name rust_price_monitor)
          (entry_after_subscribe rust_price_monitor
             (array_to_string (sub_topic \<lparr>sub_topic = topic_array ''AAPL''\<rparr>))
             (map_of (subscribers PriceFeed_new) (actor_name rust_price_monitor)))
          (subscribers PriceFeed_new)
        = [(''rust_price_monitor'',
            \<lparr>ref = ActorRef_Local rust_price_monitor, topics = [''AAPL'']\<rparr>)]"
    by (simp add: PriceFeed_new_def entry_after_subscribe_def topic_array_def
                  array_to_string_def rust_price_monitor_def)
  with on_subscribe_idempotent
         [of 1700000000 12345 "Some rust_price_monitor"
             "\<lparr>sub_topic = topic_array ''AAPL''\<rparr>" PriceFeed_new 1700000001 54321]
  show ?thesis by simp
qed

end
